theory Spec2Isabelle
  imports Complex_Main "HOL-Library.AList"
begin

section \<open>BoundaryConstraintComp: the data\<close>

text \<open>
  The values the component stores and forwards are ordinary Python objects. The ones the
  declaration entry point is documented to receive are \<open>None\<close>, booleans, ints, floats,
  strings, tuples of ints (shapes) and numeric arrays (array bounds). Floats are modelled
  as reals: the code never computes with them, it only negates the sentinel, tests
  \<open>is None\<close> and copies.
\<close>

datatype pyval =
    PyNone
  | PyBool bool
  | PyInt int
  | PyFloat real
  | PyStr string
  | PyTuple "int list"
  | PyArray "real list"

text \<open>
  A Python dict with string keys, as the list of its items in insertion order.
  \<open>map_of d k\<close> is the lookup.
\<close>

type_synonym pydict = "(string \<times> pyval) list"

datatype error = KeyError string | TypeError | ValueError

text \<open>
  What a method call leaves behind: it returns, or it raises and the object keeps the
  state it had reached at the raise.
\<close>

datatype 'a outcome = Returned 'a | Raised error 'a

fun state_of :: "'a outcome \<Rightarrow> 'a" where
  "state_of (Returned s) = s"
| "state_of (Raised e s) = s"

fun raised :: "'a outcome \<Rightarrow> error option" where
  "raised (Returned s) = None"
| "raised (Raised e s) = Some e"

text \<open>\<open>d[k]\<close>: raises KeyError on a missing key.\<close>

definition getitem :: "pydict \<Rightarrow> string \<Rightarrow> error + pyval" where
  "getitem d k = (case map_of d k of None \<Rightarrow> Inl (KeyError k) | Some v \<Rightarrow> Inr v)"

text \<open>\<open>d.get(k, None)\<close>.\<close>

definition get_or_None :: "pydict \<Rightarrow> string \<Rightarrow> pyval" where
  "get_or_None d k = (case map_of d k of None \<Rightarrow> PyNone | Some v \<Rightarrow> v)"

text \<open>The comprehension \<open>{k: d[k] for k in ks}\<close>: the first missing key raises.\<close>

fun dict_select :: "string list \<Rightarrow> pydict \<Rightarrow> error + pydict" where
  "dict_select [] d = Inr []"
| "dict_select (k # ks) d =
     (case getitem d k of
        Inl e \<Rightarrow> Inl e
      | Inr v \<Rightarrow> (case dict_select ks d of Inl e \<Rightarrow> Inl e | Inr r \<Rightarrow> Inr ((k, v) # r)))"

text \<open>The comprehension \<open>{k: d.get(k, None) for k in ks}\<close>.\<close>

definition dict_select_get :: "string list \<Rightarrow> pydict \<Rightarrow> pydict" where
  "dict_select_get ks d = map (\<lambda>k. (k, get_or_None d k)) ks"

text \<open>
  The option \<open>loc\<close> is declared with \<open>values=('initial', 'final')\<close>; the options
  dictionary of the framework refuses any other value.
\<close>

datatype location = initial | final

fun loc_str :: "location \<Rightarrow> string" where
  "loc_str initial = ''initial''"
| "loc_str final = ''final''"

text \<open>One entry of \<open>self._vars\<close>: the dict literal of \<open>setup\<close>, with its three fixed keys.\<close>

record var_opts =
  input_name :: string
  output_name :: string
  shape :: pyval

text \<open>
  The calls the component makes on its base class \<open>ExplicitComponent\<close>. The base class
  belongs to OpenMDAO and is not part of the sources: the model keeps the log of the
  calls with their arguments, in the order they are made. Keyword arguments passed as
  \<open>**d\<close> are the dict \<open>d\<close>.
\<close>

datatype call =
    Add_input string pydict
  | Add_output string pydict
  | Add_constraint string pydict
  | Declare_partials string string "real list" "nat list" "nat list"

text \<open>
  The component: the option \<open>loc\<close>, the list \<open>self._constraints\<close>, the dict
  \<open>self._vars\<close> (its items, in insertion order; nothing below depends on the order in
  which \<open>iteritems\<close> yields them) and the log of framework calls.
\<close>

record comp =
  loc :: location
  constraints :: "(string \<times> pydict) list"
  vars :: "(string \<times> var_opts) list"
  calls :: "call list"

definition initialize :: "location \<Rightarrow> comp" where
  "initialize l = \<lparr>loc = l, constraints = [], vars = [], calls = []\<rparr>"

section \<open>Declaration: \<open>_add_constraint\<close>\<close>

text \<open>
  The keyword arguments of \<open>_add_constraint\<close>, and their defaults.
\<close>

record decl =
  arg_shape :: pyval
  arg_units :: pyval
  arg_res_units :: pyval
  arg_desc :: pyval
  arg_lower :: pyval
  arg_upper :: pyval
  arg_equals :: pyval
  arg_scaler :: pyval
  arg_adder :: pyval
  arg_ref :: pyval
  arg_ref0 :: pyval
  arg_linear :: pyval
  arg_res_ref :: pyval
  arg_distributed :: pyval

definition defaults :: decl where
  "defaults = \<lparr>arg_shape = PyTuple [1], arg_units = PyNone, arg_res_units = PyNone,
     arg_desc = PyStr [], arg_lower = PyNone, arg_upper = PyNone, arg_equals = PyNone,
     arg_scaler = PyNone, arg_adder = PyNone, arg_ref = PyFloat 1, arg_ref0 = PyFloat 0,
     arg_linear = PyBool False, arg_res_ref = PyFloat 1, arg_distributed = PyBool False\<rparr>"

text \<open>
  Lines 115 to 120: the two conditional assignments and the dict literal. The constant
  \<open>INF_BOUND\<close> of \<open>dymos.utils.constants\<close> is not part of the sources and is a
  parameter. The second assignment reads the \<open>lower\<close> the first one has just written.
\<close>

definition kwargs_of :: "real \<Rightarrow> decl \<Rightarrow> pydict" where
  "kwargs_of INF_BOUND a =
     (let lower = (if arg_upper a \<noteq> PyNone \<and> arg_lower a = PyNone
                   then PyFloat (- INF_BOUND) else arg_lower a);
          upper = (if lower \<noteq> PyNone \<and> arg_upper a = PyNone
                   then PyFloat INF_BOUND else arg_upper a)
      in [(''shape'', arg_shape a), (''units'', arg_units a),
          (''res_units'', arg_res_units a), (''desc'', arg_desc a),
          (''lower'', lower), (''upper'', upper), (''equals'', arg_equals a),
          (''scaler'', arg_scaler a), (''adder'', arg_adder a), (''ref'', arg_ref a),
          (''ref0'', arg_ref0 a), (''linear'', arg_linear a),
          (''res_ref'', arg_res_ref a), (''distributed'', arg_distributed a)])"

text \<open>\<open>_add_constraint\<close> (an identifier cannot start with an underscore).\<close>

definition u_add_constraint :: "real \<Rightarrow> string \<Rightarrow> decl \<Rightarrow> comp \<Rightarrow> comp" where
  "u_add_constraint INF_BOUND name a c =
     c\<lparr>constraints := constraints c @ [(name, kwargs_of INF_BOUND a)]\<rparr>"

text \<open>A sequence of declarations, each a name with its keyword arguments, in order.\<close>

definition declare_all :: "real \<Rightarrow> (string \<times> decl) list \<Rightarrow> comp \<Rightarrow> comp" where
  "declare_all INF_BOUND ds c = foldl (\<lambda>c (name, a). u_add_constraint INF_BOUND name a c) c ds"

section \<open>Build: \<open>setup\<close>\<close>

text \<open>The two format strings of \<open>setup\<close>.\<close>

definition fmt_input_name :: "location \<Rightarrow> string \<Rightarrow> string" where
  "fmt_input_name l name = loc_str l @ ''_value_in:'' @ name"

definition fmt_output_name :: "location \<Rightarrow> string \<Rightarrow> string" where
  "fmt_output_name l name = loc_str l @ ''_value:'' @ name"

text \<open>The framework primitives: each call is appended to the log.\<close>

definition add_input :: "string \<Rightarrow> pydict \<Rightarrow> comp \<Rightarrow> comp" where
  "add_input name kw c = c\<lparr>calls := calls c @ [Add_input name kw]\<rparr>"

definition add_output :: "string \<Rightarrow> pydict \<Rightarrow> comp \<Rightarrow> comp" where
  "add_output name kw c = c\<lparr>calls := calls c @ [Add_output name kw]\<rparr>"

definition add_constraint :: "string \<Rightarrow> pydict \<Rightarrow> comp \<Rightarrow> comp" where
  "add_constraint name kw c = c\<lparr>calls := calls c @ [Add_constraint name kw]\<rparr>"

definition declare_partials ::
  "string \<Rightarrow> string \<Rightarrow> real list \<Rightarrow> nat list \<Rightarrow> nat list \<Rightarrow> comp \<Rightarrow> comp" where
  "declare_partials of_name wrt val rows cols c =
     c\<lparr>calls := calls c @ [Declare_partials of_name wrt val rows cols]\<rparr>"

text \<open>
  The first loop of \<open>setup\<close>, over \<open>self._constraints\<close>. The assignment
  \<open>self._vars[name] = ...\<close> replaces the entry of a name already present, in place, and
  appends a new name (\<open>AList.update\<close>).
\<close>

fun setup_constraints :: "(string \<times> pydict) list \<Rightarrow> comp \<Rightarrow> comp outcome" where
  "setup_constraints [] c = Returned c"
| "setup_constraints ((name, kwargs) # rest) c =
     (let input_name = fmt_input_name (loc c) name;
          output_name = fmt_output_name (loc c) name
      in case getitem kwargs ''shape'' of
           Inl e \<Rightarrow> Raised e c
         | Inr shp \<Rightarrow>
            (let c1 = c\<lparr>vars := AList.update name
                        \<lparr>input_name = input_name, output_name = output_name, shape = shp\<rparr>
                        (vars c)\<rparr>
             in case dict_select [''units'', ''shape'', ''desc''] kwargs of
                  Inl e \<Rightarrow> Raised e c1
                | Inr input_kwargs \<Rightarrow>
                   (let c2 = add_input input_name input_kwargs c1
                    in case dict_select [''units'', ''shape'', ''desc''] kwargs of
                         Inl e \<Rightarrow> Raised e c2
                       | Inr output_kwargs \<Rightarrow>
                          (let c3 = add_output output_name output_kwargs c2;
                               constraint_kwargs = dict_select_get
                                 [''lower'', ''upper'', ''equals'', ''ref'', ''ref0'', ''adder'',
                                  ''scaler'', ''indices'', ''linear''] kwargs;
                               c4 = add_constraint output_name constraint_kwargs c3
                           in setup_constraints rest c4))))"

text \<open>
  \<open>int(np.prod(shape))\<close>. numpy reads a tuple of ints that all fit in 64 bits as an
  \<open>int64\<close> array (its default integer, where a C long has 64 bits) and multiplies in
  \<open>int64\<close>: the product wraps around, and since wrapping commutes with multiplication
  the result is the exact product wrapped once. The empty tuple has product 1. \<open>int\<close>
  of a float truncates towards zero; \<open>int(None)\<close> and the product of a string raise
  TypeError. Two kinds of value are left to a parameter \<open>np_rest\<close>, which stands for
  \<open>int(np.prod(v))\<close> on them: a tuple with an entry outside \<open>int64\<close>, which numpy reads
  as an array of another type, and an array of floats, whose product is rounded in
  binary floating point.
\<close>

definition int_of_float :: "real \<Rightarrow> int" where
  "int_of_float r = (if 0 \<le> r then \<lfloor>r\<rfloor> else \<lceil>r\<rceil>)"

definition in_int64 :: "int \<Rightarrow> bool" where
  "in_int64 n = (- (2 ^ 63) \<le> n \<and> n < 2 ^ 63)"

definition wrap_int64 :: "int \<Rightarrow> int" where
  "wrap_int64 n = (n + 2 ^ 63) mod 2 ^ 64 - 2 ^ 63"

fun int_np_prod :: "(pyval \<Rightarrow> error + int) \<Rightarrow> pyval \<Rightarrow> error + int" where
  "int_np_prod np_rest PyNone = Inl TypeError"
| "int_np_prod np_rest (PyBool b) = Inr (if b then 1 else 0)"
| "int_np_prod np_rest (PyInt n) = Inr n"
| "int_np_prod np_rest (PyFloat r) = Inr (int_of_float r)"
| "int_np_prod np_rest (PyStr s) = Inl TypeError"
| "int_np_prod np_rest (PyTuple ds) =
     (if list_all in_int64 ds then Inr (wrap_int64 (prod_list ds)) else np_rest (PyTuple ds))"
| "int_np_prod np_rest (PyArray rs) = np_rest (PyArray rs)"

text \<open>\<open>np.arange(n)\<close>: empty when \<open>n \<le> 0\<close>.\<close>

definition np_arange :: "int \<Rightarrow> nat list" where
  "np_arange n = [0..<nat n]"

text \<open>
  \<open>np.ones(n)\<close>: raises ValueError on a negative \<open>n\<close>. Memory is not modelled: an
  array is a list of any length.
\<close>

definition np_ones :: "int \<Rightarrow> error + real list" where
  "np_ones n = (if n < 0 then Inl ValueError else Inr (replicate (nat n) 1))"

text \<open>
  The second loop of \<open>setup\<close>, over the items of \<open>self._vars\<close>. The arguments of
  \<open>declare_partials\<close> are evaluated before the call, so a raise in \<open>np.ones\<close> leaves
  the call unmade.
\<close>

fun setup_partials ::
  "(pyval \<Rightarrow> error + int) \<Rightarrow> (string \<times> var_opts) list \<Rightarrow> comp \<Rightarrow> comp outcome" where
  "setup_partials np_rest [] c = Returned c"
| "setup_partials np_rest ((name, options) # rest) c =
     (case int_np_prod np_rest (shape options) of
        Inl e \<Rightarrow> Raised e c
      | Inr sz \<Rightarrow>
         (let rs = np_arange sz;
              cs = np_arange sz
          in case np_ones sz of
               Inl e \<Rightarrow> Raised e c
             | Inr ones \<Rightarrow>
                 setup_partials np_rest rest
                   (declare_partials (output_name options) (input_name options) ones rs cs c)))"

text \<open>
  \<open>setup\<close> (the name is a keyword of the prover, hence the prime). Its first argument is
  the parameter of \<open>int_np_prod\<close>.
\<close>

definition setup' :: "(pyval \<Rightarrow> error + int) \<Rightarrow> comp \<Rightarrow> comp outcome" where
  "setup' np_rest c =
     (case setup_constraints (constraints c) c of
        Raised e c1 \<Rightarrow> Raised e c1
      | Returned c1 \<Rightarrow> setup_partials np_rest (vars c1) c1)"

section \<open>Evaluation: \<open>compute\<close>\<close>

text \<open>
  \<open>inputs\<close> and \<open>outputs\<close> are the framework's vectors, read and written by variable
  name. The type of the arrays they hold is a parameter: \<open>compute\<close> only moves them.
\<close>

fun compute_loop ::
  "(string \<times> var_opts) list \<Rightarrow> (string \<rightharpoonup> 'a) \<Rightarrow> (string \<rightharpoonup> 'a) \<Rightarrow> (string \<rightharpoonup> 'a) outcome" where
  "compute_loop [] inputs outputs = Returned outputs"
| "compute_loop ((name, options) # rest) inputs outputs =
     (case inputs (input_name options) of
        None \<Rightarrow> Raised (KeyError (input_name options)) outputs
      | Some v \<Rightarrow> compute_loop rest inputs (outputs(output_name options \<mapsto> v)))"

definition compute :: "comp \<Rightarrow> (string \<rightharpoonup> 'a) \<Rightarrow> (string \<rightharpoonup> 'a) \<Rightarrow> (string \<rightharpoonup> 'a) outcome" where
  "compute c inputs outputs = compute_loop (vars c) inputs outputs"

section \<open>Reading the log of framework calls\<close>

text \<open>
  The inputs, the outputs, the constraints and the sparse derivative blocks the component
  has asked the framework for, each in the order of the calls.
\<close>

fun created_inputs :: "call list \<Rightarrow> (string \<times> pydict) list" where
  "created_inputs [] = []"
| "created_inputs (Add_input n kw # cs) = (n, kw) # created_inputs cs"
| "created_inputs (_ # cs) = created_inputs cs"

fun created_outputs :: "call list \<Rightarrow> (string \<times> pydict) list" where
  "created_outputs [] = []"
| "created_outputs (Add_output n kw # cs) = (n, kw) # created_outputs cs"
| "created_outputs (_ # cs) = created_outputs cs"

fun registered_constraints :: "call list \<Rightarrow> (string \<times> pydict) list" where
  "registered_constraints [] = []"
| "registered_constraints (Add_constraint n kw # cs) = (n, kw) # registered_constraints cs"
| "registered_constraints (_ # cs) = registered_constraints cs"

fun declared_partials :: "call list \<Rightarrow> (string \<times> string \<times> real list \<times> nat list \<times> nat list) list" where
  "declared_partials [] = []"
| "declared_partials (Declare_partials out inp val rows cols # cs) =
     (out, inp, val, rows, cols) # declared_partials cs"
| "declared_partials (_ # cs) = declared_partials cs"

section \<open>What one declaration contributes to the build\<close>

text \<open>
  The two conditional assignments of \<open>_add_constraint\<close>, each as a function of the
  arguments. When \<open>upper\<close> is \<open>None\<close> the first assignment leaves \<open>lower\<close> as it
  was given, so the test of the second one can read the argument.
\<close>

definition normalized_lower :: "real \<Rightarrow> decl \<Rightarrow> pyval" where
  "normalized_lower I a =
     (if arg_upper a \<noteq> PyNone \<and> arg_lower a = PyNone then PyFloat (- I) else arg_lower a)"

definition normalized_upper :: "real \<Rightarrow> decl \<Rightarrow> pyval" where
  "normalized_upper I a =
     (if arg_lower a \<noteq> PyNone \<and> arg_upper a = PyNone then PyFloat I else arg_upper a)"

text \<open>
  The keyword arguments \<open>setup\<close> passes for a declaration: to \<open>add_input\<close> and
  \<open>add_output\<close>, and to \<open>add_constraint\<close>; the three calls of one iteration of the
  first loop; the entry it writes into \<open>self._vars\<close>; the entry \<open>_add_constraint\<close>
  appends to \<open>self._constraints\<close>.
\<close>

definition io_kwargs :: "decl \<Rightarrow> pydict" where
  "io_kwargs a = [(''units'', arg_units a), (''shape'', arg_shape a), (''desc'', arg_desc a)]"

definition forwarded_kwargs :: "real \<Rightarrow> decl \<Rightarrow> pydict" where
  "forwarded_kwargs I a =
     [(''lower'', normalized_lower I a), (''upper'', normalized_upper I a),
      (''equals'', arg_equals a), (''ref'', arg_ref a), (''ref0'', arg_ref0 a),
      (''adder'', arg_adder a), (''scaler'', arg_scaler a), (''indices'', PyNone),
      (''linear'', arg_linear a)]"

definition decl_calls :: "real \<Rightarrow> location \<Rightarrow> string \<times> decl \<Rightarrow> call list" where
  "decl_calls I l d =
     [Add_input (fmt_input_name l (fst d)) (io_kwargs (snd d)),
      Add_output (fmt_output_name l (fst d)) (io_kwargs (snd d)),
      Add_constraint (fmt_output_name l (fst d)) (forwarded_kwargs I (snd d))]"

definition decl_var :: "location \<Rightarrow> string \<times> decl \<Rightarrow> var_opts" where
  "decl_var l d = \<lparr>input_name = fmt_input_name l (fst d),
     output_name = fmt_output_name l (fst d), shape = arg_shape (snd d)\<rparr>"

definition stored :: "real \<Rightarrow> string \<times> decl \<Rightarrow> string \<times> pydict" where
  "stored I d = (fst d, kwargs_of I (snd d))"

text \<open>
  \<open>self._vars\<close> after the first loop has run over a list of declarations.
\<close>

definition declared_vars :: "location \<Rightarrow> (string \<times> decl) list \<Rightarrow> (string \<times> var_opts) list" where
  "declared_vars l ds = fold (\<lambda>d. AList.update (fst d) (decl_var l d)) ds []"

text \<open>
  The second loop as a function of the items it runs over: the calls it makes, and the
  error it stops at, if any.
\<close>

fun partial_calls ::
  "(pyval \<Rightarrow> error + int) \<Rightarrow> (string \<times> var_opts) list \<Rightarrow> call list \<times> error option" where
  "partial_calls np_rest [] = ([], None)"
| "partial_calls np_rest ((name, v) # rest) =
     (case int_np_prod np_rest (shape v) of
        Inl e \<Rightarrow> ([], Some e)
      | Inr k \<Rightarrow>
          if k < 0 then ([], Some ValueError)
          else (Declare_partials (output_name v) (input_name v)
                  (replicate (nat k) 1) [0..<nat k] [0..<nat k]
                  # fst (partial_calls np_rest rest),
                snd (partial_calls np_rest rest)))"

definition finish :: "error option \<Rightarrow> 'a \<Rightarrow> 'a outcome" where
  "finish r s = (case r of None \<Rightarrow> Returned s | Some e \<Rightarrow> Raised e s)"

text \<open>
  The size \<open>setup\<close> computes for an entry of \<open>self._vars\<close>, the block it declares
  for it, and whether \<open>np.ones\<close> accepts the size.
\<close>

definition var_size :: "(pyval \<Rightarrow> error + int) \<Rightarrow> var_opts \<Rightarrow> nat" where
  "var_size np_rest v = (case int_np_prod np_rest (shape v) of Inl e \<Rightarrow> 0 | Inr k \<Rightarrow> nat k)"

definition identity_block ::
  "(pyval \<Rightarrow> error + int) \<Rightarrow> string \<times> var_opts
     \<Rightarrow> string \<times> string \<times> real list \<times> nat list \<times> nat list" where
  "identity_block np_rest x =
     (output_name (snd x), input_name (snd x), replicate (var_size np_rest (snd x)) 1,
      [0..<var_size np_rest (snd x)], [0..<var_size np_rest (snd x)])"

definition size_ok :: "(pyval \<Rightarrow> error + int) \<Rightarrow> var_opts \<Rightarrow> bool" where
  "size_ok np_rest v =
     (case int_np_prod np_rest (shape v) of Inl e \<Rightarrow> False | Inr k \<Rightarrow> 0 \<le> k)"

text \<open>
  Three declarations with the arguments the example script \<open>ex_min_time_climb.py\<close> gives
  for the end of its phase.
\<close>

definition min_time_climb_final :: "(string \<times> decl) list" where
  "min_time_climb_final =
     [(''h'', defaults\<lparr>arg_equals := PyInt 20000, arg_scaler := PyFloat 0.001,
                        arg_units := PyStr ''m''\<rparr>),
      (''aero.mach'', defaults\<lparr>arg_equals := PyFloat 1, arg_units := PyNone\<rparr>),
      (''gam'', defaults\<lparr>arg_equals := PyFloat 0, arg_units := PyStr ''rad''\<rparr>)]"

section \<open>The build in closed form\<close>

subsection \<open>The first loop\<close>

lemma constraints_u_add_constraint:
  "constraints (u_add_constraint I name a c) = constraints c @ [(name, kwargs_of I a)]"
  by (simp add: u_add_constraint_def)

lemma constraints_declare_all:
  "constraints (declare_all I ds c) = constraints c @ map (stored I) ds"
  by (induction ds arbitrary: c) (simp_all add: declare_all_def u_add_constraint_def stored_def split_beta)

lemma getitem_shape: "getitem (kwargs_of I a) ''shape'' = Inr (arg_shape a)"
  by (simp add: kwargs_of_def getitem_def Let_def)

lemma getitem_unforwarded:
  "getitem (kwargs_of I a) ''res_units'' = Inr (arg_res_units a)"
  "getitem (kwargs_of I a) ''res_ref'' = Inr (arg_res_ref a)"
  "getitem (kwargs_of I a) ''distributed'' = Inr (arg_distributed a)"
  "getitem (kwargs_of I a) ''indices'' = Inl (KeyError ''indices'')"
  by (simp_all add: kwargs_of_def getitem_def Let_def)

lemma select_io: "dict_select [''units'', ''shape'', ''desc''] (kwargs_of I a) = Inr (io_kwargs a)"
  by (simp add: kwargs_of_def getitem_def Let_def io_kwargs_def)

lemma select_constraint:
  "dict_select_get [''lower'', ''upper'', ''equals'', ''ref'', ''ref0'', ''adder'',
      ''scaler'', ''indices'', ''linear''] (kwargs_of I a) = forwarded_kwargs I a"
  by (simp add: kwargs_of_def dict_select_get_def get_or_None_def Let_def forwarded_kwargs_def
      normalized_lower_def normalized_upper_def)

lemma setup_constraints_step:
  "setup_constraints (stored I d # rest) c =
     setup_constraints rest
       (c\<lparr>vars := AList.update (fst d) (decl_var (loc c) d) (vars c),
          calls := calls c @ decl_calls I (loc c) d\<rparr>)"
  by (simp add: stored_def getitem_shape select_io select_constraint
      add_input_def add_output_def add_constraint_def decl_var_def decl_calls_def Let_def
      del: dict_select.simps)

lemma setup_constraints_declared:
  "setup_constraints (map (stored I) ds) c =
     Returned (c\<lparr>vars := fold (\<lambda>d. AList.update (fst d) (decl_var (loc c) d)) ds (vars c),
                 calls := calls c @ concat (map (decl_calls I (loc c)) ds)\<rparr>)"
proof (induction ds arbitrary: c)
  case Nil
  show ?case by simp
next
  case (Cons d ds)
  show ?case
    by (simp add: setup_constraints_step Cons.IH del: setup_constraints.simps)
qed

subsection \<open>The second loop\<close>

lemma setup_partials_calls:
  "setup_partials np_rest vs c =
     finish (snd (partial_calls np_rest vs)) (c\<lparr>calls := calls c @ fst (partial_calls np_rest vs)\<rparr>)"
proof (induction vs arbitrary: c)
  case Nil
  show ?case by (simp add: finish_def)
next
  case (Cons x vs)
  obtain n v where x: "x = (n, v)" by (cases x)
  show ?case
    by (simp add: x Cons.IH np_ones_def np_arange_def declare_partials_def finish_def
        split: sum.split option.split)
qed

lemma partial_calls_ok:
  "snd (partial_calls np_rest vs) = None \<longleftrightarrow> list_all (\<lambda>x. size_ok np_rest (snd x)) vs"
  by (induction np_rest vs rule: partial_calls.induct) (simp_all add: size_ok_def split: sum.split)

lemma partial_calls_blocks:
  "list_all (\<lambda>x. size_ok np_rest (snd x)) vs \<Longrightarrow>
   declared_partials (fst (partial_calls np_rest vs)) = map (identity_block np_rest) vs"
  by (induction np_rest vs rule: partial_calls.induct)
    (simp_all add: size_ok_def identity_block_def var_size_def split: sum.splits)

lemma wrap_int64_id: "in_int64 n \<Longrightarrow> wrap_int64 n = n"
  by (simp add: in_int64_def wrap_int64_def)

lemma int_np_prod_tuple:
  assumes "\<forall>d\<in>set dims. - (2 ^ 63) \<le> d \<and> d < 2 ^ 63"
    and "0 \<le> prod_list dims" and "prod_list dims < 2 ^ 63"
  shows "int_np_prod np_rest (PyTuple dims) = Inr (prod_list dims)"
proof -
  have "list_all in_int64 dims"
    using assms(1) by (simp add: list_all_iff in_int64_def)
  moreover have "wrap_int64 (prod_list dims) = prod_list dims"
    using assms(2,3) by (simp add: wrap_int64_id in_int64_def)
  ultimately show ?thesis by simp
qed

lemma partial_calls_only_partials:
  "created_inputs (fst (partial_calls np_rest vs)) = []"
  "created_outputs (fst (partial_calls np_rest vs)) = []"
  "registered_constraints (fst (partial_calls np_rest vs)) = []"
  by (induction np_rest vs rule: partial_calls.induct; simp split: sum.split)+

subsection \<open>The whole of \<open>setup\<close> on a registry built by declarations\<close>

lemma state_of_finish: "state_of (finish r s) = s"
  by (simp add: finish_def split: option.split)

lemma raised_finish: "raised (finish r s) = r"
  by (simp add: finish_def split: option.split)

lemma setup_declared:
  "setup' np_rest (declare_all I ds (initialize l)) =
     finish (snd (partial_calls np_rest (declared_vars l ds)))
       \<lparr>loc = l, constraints = map (stored I) ds, vars = declared_vars l ds,
        calls = concat (map (decl_calls I l) ds) @ fst (partial_calls np_rest (declared_vars l ds))\<rparr>"
proof -
  let ?c = "declare_all I ds (initialize l)"
  have c: "constraints ?c = map (stored I) ds"
    by (simp add: constraints_declare_all initialize_def)
  have rest: "loc ?c = l" "vars ?c = []" "calls ?c = []"
    by (induction ds rule: rev_induct)
      (simp_all add: declare_all_def u_add_constraint_def initialize_def split_beta)
  have eq: "?c = \<lparr>loc = l, constraints = map (stored I) ds, vars = [], calls = []\<rparr>"
    using c rest by (cases ?c) simp
  show ?thesis
    unfolding setup'_def c
    by (simp add: eq setup_constraints_declared setup_partials_calls declared_vars_def)
qed

lemma vars_built:
  "vars (state_of (setup' np_rest (declare_all I ds (initialize l)))) = declared_vars l ds"
  by (simp add: setup_declared state_of_finish)

lemma calls_built:
  "calls (state_of (setup' np_rest (declare_all I ds (initialize l)))) =
     concat (map (decl_calls I l) ds) @ fst (partial_calls np_rest (declared_vars l ds))"
  by (simp add: setup_declared state_of_finish)

lemma raised_built:
  "raised (setup' np_rest (declare_all I ds (initialize l))) = snd (partial_calls np_rest (declared_vars l ds))"
  by (simp add: setup_declared raised_finish)

subsection \<open>The log, by kind of call\<close>

lemma created_inputs_append: "created_inputs (xs @ ys) = created_inputs xs @ created_inputs ys"
  by (induction xs rule: created_inputs.induct) simp_all

lemma created_outputs_append: "created_outputs (xs @ ys) = created_outputs xs @ created_outputs ys"
  by (induction xs rule: created_outputs.induct) simp_all

lemma registered_constraints_append:
  "registered_constraints (xs @ ys) = registered_constraints xs @ registered_constraints ys"
  by (induction xs rule: registered_constraints.induct) simp_all

lemma declared_partials_append:
  "declared_partials (xs @ ys) = declared_partials xs @ declared_partials ys"
  by (induction xs rule: declared_partials.induct) simp_all

lemma created_inputs_decl_calls:
  "created_inputs (concat (map (decl_calls I l) ds)) =
     map (\<lambda>d. (fmt_input_name l (fst d), io_kwargs (snd d))) ds"
  by (induction ds) (simp_all add: decl_calls_def)

lemma created_outputs_decl_calls:
  "created_outputs (concat (map (decl_calls I l) ds)) =
     map (\<lambda>d. (fmt_output_name l (fst d), io_kwargs (snd d))) ds"
  by (induction ds) (simp_all add: decl_calls_def)

lemma registered_constraints_decl_calls:
  "registered_constraints (concat (map (decl_calls I l) ds)) =
     map (\<lambda>d. (fmt_output_name l (fst d), forwarded_kwargs I (snd d))) ds"
  by (induction ds) (simp_all add: decl_calls_def)

lemma declared_partials_decl_calls:
  "declared_partials (concat (map (decl_calls I l) ds)) = []"
  by (induction ds) (simp_all add: decl_calls_def)

lemma built_inputs:
  "created_inputs (calls (state_of (setup' np_rest (declare_all I ds (initialize l))))) =
     map (\<lambda>d. (fmt_input_name l (fst d), io_kwargs (snd d))) ds"
  by (simp add: setup_declared state_of_finish created_inputs_append created_inputs_decl_calls
      partial_calls_only_partials)

lemma built_outputs:
  "created_outputs (calls (state_of (setup' np_rest (declare_all I ds (initialize l))))) =
     map (\<lambda>d. (fmt_output_name l (fst d), io_kwargs (snd d))) ds"
  by (simp add: setup_declared state_of_finish created_outputs_append created_outputs_decl_calls
      partial_calls_only_partials)

lemma built_constraints:
  "registered_constraints (calls (state_of (setup' np_rest (declare_all I ds (initialize l))))) =
     map (\<lambda>d. (fmt_output_name l (fst d), forwarded_kwargs I (snd d))) ds"
  by (simp add: setup_declared state_of_finish registered_constraints_append
      registered_constraints_decl_calls partial_calls_only_partials)

subsection \<open>The names and the entries of \<open>self._vars\<close>\<close>

lemma inj_fmt_input_name: "inj (fmt_input_name l)"
  by (simp add: inj_on_def fmt_input_name_def)

lemma inj_fmt_output_name: "inj (fmt_output_name l)"
  by (simp add: inj_on_def fmt_output_name_def)

lemma set_update_cases:
  "x \<in> set (AList.update k v al) \<Longrightarrow> x = (k, v) \<or> x \<in> set al"
  by (induction al) (auto split: if_splits)

lemma fold_update_mem:
  "x \<in> set (fold (\<lambda>d. AList.update (fst d) (f d)) ds vs) \<Longrightarrow>
   x \<in> set vs \<or> (\<exists>d\<in>set ds. x = (fst d, f d))"
proof (induction ds arbitrary: vs)
  case Nil
  then show ?case by simp
next
  case (Cons d ds)
  from Cons.IH [OF Cons.prems [simplified]] show ?case
    by (auto dest: set_update_cases)
qed

lemma fold_update_distinct:
  "distinct (map fst vs) \<Longrightarrow>
   distinct (map fst (fold (\<lambda>d. AList.update (fst d) (f d)) ds vs))"
  by (induction ds arbitrary: vs) (simp_all add: AList.distinct_update)

lemma fold_update_keys:
  "fst ` set (fold (\<lambda>d. AList.update (fst d) (f d)) ds vs) = fst ` set ds \<union> fst ` set vs"
  by (induction ds arbitrary: vs) (auto simp add: AList.dom_update)

lemma declared_vars_distinct: "distinct (map fst (declared_vars l ds))"
  by (simp add: declared_vars_def fold_update_distinct)

lemma declared_vars_keys: "fst ` set (declared_vars l ds) = fst ` set ds"
  by (simp add: declared_vars_def fold_update_keys)

lemma declared_vars_mem:
  "x \<in> set (declared_vars l ds) \<Longrightarrow> \<exists>d\<in>set ds. x = (fst d, decl_var l d)"
  using fold_update_mem [of x "decl_var l" ds "[]"] by (simp add: declared_vars_def)

lemma declared_vars_names:
  "(n, v) \<in> set (declared_vars l ds) \<Longrightarrow>
   input_name v = fmt_input_name l n \<and> output_name v = fmt_output_name l n"
  by (auto dest!: declared_vars_mem simp add: decl_var_def)

lemma declared_vars_shape:
  "(n, v) \<in> set (declared_vars l ds) \<Longrightarrow> \<exists>a. (n, a) \<in> set ds \<and> shape v = arg_shape a"
  by (force dest!: declared_vars_mem simp add: decl_var_def)

lemma declared_vars_size_ok:
  assumes "\<forall>(n, a) \<in> set ds. \<exists>dims. arg_shape a = PyTuple dims
             \<and> (\<forall>d\<in>set dims. - (2 ^ 63) \<le> d \<and> d < 2 ^ 63)
             \<and> 0 \<le> prod_list dims \<and> prod_list dims < 2 ^ 63"
  shows "list_all (\<lambda>x. size_ok np_rest (snd x)) (declared_vars l ds)"
  unfolding list_all_iff
proof
  fix x assume "x \<in> set (declared_vars l ds)"
  then obtain a where a: "(fst x, a) \<in> set ds" "shape (snd x) = arg_shape a"
    using declared_vars_shape [of "fst x" "snd x" l ds] by auto
  with assms obtain dims where "arg_shape a = PyTuple dims"
    "\<forall>d\<in>set dims. - (2 ^ 63) \<le> d \<and> d < 2 ^ 63" "0 \<le> prod_list dims" "prod_list dims < 2 ^ 63"
    by fastforce
  then show "size_ok np_rest (snd x)"
    using a(2) int_np_prod_tuple [of dims np_rest] by (simp add: size_ok_def)
qed

lemma declared_vars_has:
  assumes "(n, a) \<in> set ds"
  shows "\<exists>v. (n, v) \<in> set (declared_vars l ds)"
proof -
  from assms have "n \<in> fst ` set ds" by force
  then have "n \<in> fst ` set (declared_vars l ds)" by (simp add: declared_vars_keys)
  then show ?thesis by auto
qed

lemma filter_key_unique:
  "distinct (map fst xs) \<Longrightarrow> x \<in> set xs \<Longrightarrow> filter (\<lambda>y. fst y = fst x) xs = [x]"
proof (induction xs)
  case Nil
  then show ?case by simp
next
  case (Cons y ys)
  show ?case
  proof (cases "x = y")
    case True
    have "fst z \<noteq> fst y" if "z \<in> set ys" for z
      using Cons.prems(1) that by (metis distinct.simps(2) image_eqI list.simps(9) set_map)
    then have "filter (\<lambda>z. fst z = fst y) ys = []"
      by (simp add: filter_empty_conv)
    with True show ?thesis by simp
  next
    case False
    with Cons.prems have "x \<in> set ys" "fst y \<noteq> fst x" by auto
    with Cons show ?thesis by simp
  qed
qed

lemma declared_vars_filter:
  assumes "(n, v) \<in> set (declared_vars l ds)"
  shows "filter (\<lambda>y. output_name (snd y) = output_name v \<and> input_name (snd y) = input_name v)
           (declared_vars l ds) = [(n, v)]"
proof -
  have "filter (\<lambda>y. output_name (snd y) = output_name v \<and> input_name (snd y) = input_name v)
           (declared_vars l ds) = filter (\<lambda>y. fst y = fst (n, v)) (declared_vars l ds)"
  proof (rule filter_cong [OF refl])
    fix y assume "y \<in> set (declared_vars l ds)"
    then have "input_name (snd y) = fmt_input_name l (fst y)"
      "output_name (snd y) = fmt_output_name l (fst y)"
      using declared_vars_names [of "fst y" "snd y" l ds] by simp_all
    moreover have "input_name v = fmt_input_name l n" "output_name v = fmt_output_name l n"
      using declared_vars_names [OF assms] by simp_all
    ultimately show "(output_name (snd y) = output_name v \<and> input_name (snd y) = input_name v)
        = (fst y = fst (n, v))"
      by (auto simp add: fmt_input_name_def fmt_output_name_def)
  qed
  also have "\<dots> = [(n, v)]"
    by (rule filter_key_unique [OF declared_vars_distinct assms])
  finally show ?thesis .
qed

lemma declared_vars_output_names_distinct:
  "distinct (map (\<lambda>x. output_name (snd x)) (declared_vars l ds))"
proof -
  have "map (\<lambda>x. output_name (snd x)) (declared_vars l ds)
      = map (fmt_output_name l) (map fst (declared_vars l ds))"
    using declared_vars_names [of _ _ l ds] by (auto simp add: comp_def)
  then show ?thesis
    using declared_vars_distinct [of l ds] inj_fmt_output_name [of l]
    by (simp add: distinct_map inj_on_def del: map_map)
qed

subsection \<open>The build reads a declaration only through the calls and the entry above\<close>

lemma build_depends_on:
  assumes "map (\<lambda>d. (fst d, e (snd d))) ds = map (\<lambda>d. (fst d, e (snd d))) ds'"
    and "\<And>d. decl_calls I l (fst d, e (snd d)) = decl_calls I l d"
    and "\<And>d. decl_var l (fst d, e (snd d)) = decl_var l d"
  shows "concat (map (decl_calls I l) ds) = concat (map (decl_calls I l) ds')"
    and "declared_vars l ds = declared_vars l ds'"
proof -
  let ?E = "\<lambda>d. (fst d, e (snd d))"
  have c: "concat (map (decl_calls I l) xs) = concat (map (decl_calls I l) (map ?E xs))" for xs
    by (simp add: comp_def assms(2))
  have v: "declared_vars l xs = declared_vars l (map ?E xs)" for xs
    by (simp add: declared_vars_def fold_map comp_def assms(3))
  show "concat (map (decl_calls I l) ds) = concat (map (decl_calls I l) ds')"
    using c [of ds] c [of ds'] assms(1) by simp
  show "declared_vars l ds = declared_vars l ds'"
    using v [of ds] v [of ds'] assms(1) by simp
qed

subsection \<open>The copy loop of \<open>compute\<close>\<close>

lemma compute_loop_copies:
  assumes "distinct (map (\<lambda>x. output_name (snd x)) vs)"
    and "\<forall>x\<in>set vs. inputs (input_name (snd x)) \<noteq> None"
  shows "\<exists>outs. compute_loop vs inputs outputs = Returned outs
     \<and> (\<forall>x\<in>set vs. outs (output_name (snd x)) = inputs (input_name (snd x)))
     \<and> (\<forall>k. k \<notin> (\<lambda>x. output_name (snd x)) ` set vs \<longrightarrow> outs k = outputs k)"
  using assms
proof (induction vs arbitrary: outputs)
  case Nil
  show ?case by simp
next
  case (Cons x vs)
  obtain n v where x: "x = (n, v)" by (cases x)
  from Cons.prems obtain arr where arr: "inputs (input_name v) = Some arr"
    by (auto simp add: x)
  let ?outputs = "outputs(output_name v \<mapsto> arr)"
  from Cons.prems have d: "distinct (map (\<lambda>x. output_name (snd x)) vs)"
    and fresh: "output_name v \<notin> (\<lambda>x. output_name (snd x)) ` set vs"
    and present: "\<forall>x\<in>set vs. inputs (input_name (snd x)) \<noteq> None"
    by (simp_all add: x)
  from Cons.IH [OF d present, of ?outputs] obtain outs where
    run: "compute_loop vs inputs ?outputs = Returned outs"
    and copied: "\<forall>x\<in>set vs. outs (output_name (snd x)) = inputs (input_name (snd x))"
    and frame: "\<forall>k. k \<notin> (\<lambda>x. output_name (snd x)) ` set vs \<longrightarrow> outs k = ?outputs k"
    by blast
  have "compute_loop (x # vs) inputs outputs = Returned outs"
    by (simp add: x arr run)
  moreover have "outs (output_name v) = inputs (input_name v)"
    using frame fresh arr by simp
  moreover have "\<forall>k. k \<notin> (\<lambda>x. output_name (snd x)) ` set (x # vs) \<longrightarrow> outs k = outputs k"
    using frame by (simp add: x)
  ultimately show ?case
    using copied by (auto simp add: x)
qed

subsection \<open>Evaluation of the build on concrete declarations\<close>

lemmas ev = setup_declared declared_vars_def decl_calls_def decl_var_def io_kwargs_def
  forwarded_kwargs_def normalized_lower_def normalized_upper_def fmt_input_name_def
  fmt_output_name_def finish_def stored_def defaults_def

section \<open>Declaration: the bounds\<close>

text \<open>
  C1. A declaration that gives exactly one of \<open>lower\<close> and \<open>upper\<close> is stored with the
  missing side set to the sentinel, \<open>-INF_BOUND\<close> for a missing lower bound and
  \<open>INF_BOUND\<close> for a missing upper bound, and with the side that was given unchanged.
\<close>

theorem one_sided_bound_sentinel:
  "\<exists>kwargs. constraints (u_add_constraint INF_BOUND name a c) = constraints c @ [(name, kwargs)]
     \<and> (arg_lower a = PyNone \<and> arg_upper a \<noteq> PyNone \<longrightarrow>
          getitem kwargs ''lower'' = Inr (PyFloat (- INF_BOUND)) \<and>
          getitem kwargs ''upper'' = Inr (arg_upper a))
     \<and> (arg_lower a \<noteq> PyNone \<and> arg_upper a = PyNone \<longrightarrow>
          getitem kwargs ''lower'' = Inr (arg_lower a) \<and>
          getitem kwargs ''upper'' = Inr (PyFloat INF_BOUND))"
  by (simp add: u_add_constraint_def kwargs_of_def getitem_def)

theorem one_sided_bound_sentinel_witness:
  "\<exists>kwargs. constraints (u_add_constraint 10000000000 ''gam''
        (defaults\<lparr>arg_lower := PyFloat (- 1.5)\<rparr>) (initialize final)) = [(''gam'', kwargs)]
     \<and> getitem kwargs ''lower'' = Inr (PyFloat (- 1.5))
     \<and> getitem kwargs ''upper'' = Inr (PyFloat 10000000000)"
  using one_sided_bound_sentinel
    [of 10000000000 "''gam''" "defaults\<lparr>arg_lower := PyFloat (- 1.5)\<rparr>" "initialize final"]
  by (simp add: defaults_def initialize_def)

text \<open>
  C2. A declaration that gives neither \<open>lower\<close> nor \<open>upper\<close>, or gives both, is stored
  with the pair of bounds exactly as given.
\<close>

theorem two_sided_or_unbounded_unchanged:
  "(arg_lower a = PyNone \<longleftrightarrow> arg_upper a = PyNone) \<Longrightarrow>
   \<exists>kwargs. constraints (u_add_constraint INF_BOUND name a c) = constraints c @ [(name, kwargs)]
     \<and> getitem kwargs ''lower'' = Inr (arg_lower a)
     \<and> getitem kwargs ''upper'' = Inr (arg_upper a)"
  by (auto simp add: u_add_constraint_def kwargs_of_def getitem_def)

theorem two_sided_or_unbounded_unchanged_witness:
  "(\<exists>kwargs. constraints (u_add_constraint 10000000000 ''gam''
        (defaults\<lparr>arg_lower := PyFloat (- 1.5), arg_upper := PyFloat 1.5\<rparr>) (initialize final))
          = [(''gam'', kwargs)]
     \<and> getitem kwargs ''lower'' = Inr (PyFloat (- 1.5))
     \<and> getitem kwargs ''upper'' = Inr (PyFloat 1.5))
   \<and> (\<exists>kwargs. constraints (u_add_constraint 10000000000 ''h''
        (defaults\<lparr>arg_equals := PyInt 20000\<rparr>) (initialize final)) = [(''h'', kwargs)]
     \<and> getitem kwargs ''lower'' = Inr PyNone
     \<and> getitem kwargs ''upper'' = Inr PyNone)"
  using two_sided_or_unbounded_unchanged
    [of "defaults\<lparr>arg_lower := PyFloat (- 1.5), arg_upper := PyFloat 1.5\<rparr>"
        10000000000 "''gam''" "initialize final"]
    two_sided_or_unbounded_unchanged
    [of "defaults\<lparr>arg_equals := PyInt 20000\<rparr>" 10000000000 "''h''" "initialize final"]
  by (simp add: defaults_def initialize_def)

section \<open>Declaration: names\<close>

text \<open>
  C3, as amended. Declaring a name that the registry already holds does not fail:
  \<open>_add_constraint\<close> has no check and no raise, the declaration is appended like any
  other, nothing else of the component changes, and the registry then holds two entries
  with that name.
\<close>

theorem duplicate_name_is_appended:
  "name \<in> fst ` set (constraints c) \<Longrightarrow>
   \<exists>kwargs. u_add_constraint INF_BOUND name a c
               = c\<lparr>constraints := constraints c @ [(name, kwargs)]\<rparr>
     \<and> \<not> distinct (map fst (constraints (u_add_constraint INF_BOUND name a c)))"
  by (auto simp add: u_add_constraint_def)

theorem duplicate_name_is_appended_witness:
  "\<exists>kwargs. u_add_constraint 10000000000 ''h'' defaults
        (u_add_constraint 10000000000 ''h'' defaults (initialize final))
      = (u_add_constraint 10000000000 ''h'' defaults (initialize final))
          \<lparr>constraints := constraints (u_add_constraint 10000000000 ''h'' defaults (initialize final))
             @ [(''h'', kwargs)]\<rparr>
     \<and> \<not> distinct (map fst (constraints (u_add_constraint 10000000000 ''h'' defaults
          (u_add_constraint 10000000000 ''h'' defaults (initialize final)))))"
proof -
  have h: "''h'' \<in> fst ` set (constraints (u_add_constraint 10000000000 ''h'' defaults (initialize final)))"
    by (simp add: u_add_constraint_def initialize_def)
  show ?thesis
    by (rule duplicate_name_is_appended [OF h])
qed

text \<open>
  C3 as stated fails: the second declaration of \<open>h\<close> returns, and the registry holds
  both.
\<close>

theorem duplicate_name_counterexample:
  "map fst (constraints (u_add_constraint 10000000000 ''h'' (defaults\<lparr>arg_equals := PyInt 20000\<rparr>)
      (u_add_constraint 10000000000 ''h'' (defaults\<lparr>arg_equals := PyInt 20000\<rparr>)
         (initialize final)))) = [''h'', ''h'']"
  by (simp add: u_add_constraint_def initialize_def)

section \<open>Build: the variables\<close>

text \<open>
  C4. For a registry at location \<open>l\<close>, the build creates for each declaration, in
  order, one input named \<open>"{loc}_value_in:{name}"\<close> and one output named
  \<open>"{loc}_value:{name}"\<close>, each with the declared units, shape and description, and
  creates no other input or output. The names are functions of the location and the
  declared name alone; when the declared names are distinct, so are the input names and
  the output names.
\<close>

theorem build_creates_named_pair:
  "created_inputs (calls (state_of (setup' np_rest (declare_all INF_BOUND ds (initialize l))))) =
     map (\<lambda>(n, a). (loc_str l @ ''_value_in:'' @ n,
            [(''units'', arg_units a), (''shape'', arg_shape a), (''desc'', arg_desc a)])) ds
   \<and> created_outputs (calls (state_of (setup' np_rest (declare_all INF_BOUND ds (initialize l))))) =
     map (\<lambda>(n, a). (loc_str l @ ''_value:'' @ n,
            [(''units'', arg_units a), (''shape'', arg_shape a), (''desc'', arg_desc a)])) ds
   \<and> (distinct (map fst ds) \<longrightarrow>
        distinct (map fst (created_inputs
          (calls (state_of (setup' np_rest (declare_all INF_BOUND ds (initialize l))))))) \<and>
        distinct (map fst (created_outputs
          (calls (state_of (setup' np_rest (declare_all INF_BOUND ds (initialize l))))))))"
proof -
  let ?s = "state_of (setup' np_rest (declare_all INF_BOUND ds (initialize l)))"
  have a: "(\<lambda>d. (fmt_input_name l (fst d), io_kwargs (snd d))) =
    (\<lambda>(n, a). (loc_str l @ ''_value_in:'' @ n,
            [(''units'', arg_units a), (''shape'', arg_shape a), (''desc'', arg_desc a)]))"
    by (simp add: fun_eq_iff fmt_input_name_def io_kwargs_def)
  have b: "(\<lambda>d. (fmt_output_name l (fst d), io_kwargs (snd d))) =
    (\<lambda>(n, a). (loc_str l @ ''_value:'' @ n,
            [(''units'', arg_units a), (''shape'', arg_shape a), (''desc'', arg_desc a)]))"
    by (simp add: fun_eq_iff fmt_output_name_def io_kwargs_def)
  have ins: "map fst (created_inputs (calls ?s)) = map (fmt_input_name l) (map fst ds)"
    by (simp add: built_inputs comp_def)
  have outs: "map fst (created_outputs (calls ?s)) = map (fmt_output_name l) (map fst ds)"
    by (simp add: built_outputs comp_def)
  have c: "distinct (map fst (created_inputs (calls ?s)))" if "distinct (map fst ds)"
    unfolding ins using that inj_fmt_input_name [of l]
    by (simp add: distinct_map inj_on_def del: map_map)
  have d: "distinct (map fst (created_outputs (calls ?s)))" if "distinct (map fst ds)"
    unfolding outs using that inj_fmt_output_name [of l]
    by (simp add: distinct_map inj_on_def del: map_map)
  show ?thesis
    using built_inputs [of np_rest INF_BOUND ds l] built_outputs [of np_rest INF_BOUND ds l] c d
    unfolding a b by blast
qed

theorem build_creates_named_pair_witness:
  "created_inputs (calls (state_of (setup' (\<lambda>v. Inl TypeError)
      (declare_all 10000000000 min_time_climb_final (initialize final))))) =
     [(''final_value_in:h'', [(''units'', PyStr ''m''), (''shape'', PyTuple [1]), (''desc'', PyStr [])]),
      (''final_value_in:aero.mach'', [(''units'', PyNone), (''shape'', PyTuple [1]), (''desc'', PyStr [])]),
      (''final_value_in:gam'', [(''units'', PyStr ''rad''), (''shape'', PyTuple [1]), (''desc'', PyStr [])])]
   \<and> created_outputs (calls (state_of (setup' (\<lambda>v. Inl TypeError)
      (declare_all 10000000000 min_time_climb_final (initialize final))))) =
     [(''final_value:h'', [(''units'', PyStr ''m''), (''shape'', PyTuple [1]), (''desc'', PyStr [])]),
      (''final_value:aero.mach'', [(''units'', PyNone), (''shape'', PyTuple [1]), (''desc'', PyStr [])]),
      (''final_value:gam'', [(''units'', PyStr ''rad''), (''shape'', PyTuple [1]), (''desc'', PyStr [])])]
   \<and> distinct (map fst (created_inputs (calls (state_of (setup' (\<lambda>v. Inl TypeError)
      (declare_all 10000000000 min_time_climb_final (initialize final)))))))
   \<and> distinct (map fst (created_outputs (calls (state_of (setup' (\<lambda>v. Inl TypeError)
      (declare_all 10000000000 min_time_climb_final (initialize final)))))))"
proof -
  have h: "distinct (map fst min_time_climb_final)"
    by (simp add: min_time_climb_final_def)
  from build_creates_named_pair [of "\<lambda>v. Inl TypeError" 10000000000 min_time_climb_final final] h
  show ?thesis
    by (simp add: min_time_climb_final_def defaults_def)
qed

section \<open>Build: the sparse derivative\<close>

text \<open>
  C5. When every declared shape is a tuple of dimensions that fit in \<open>int64\<close> and whose
  product is not negative and fits in \<open>int64\<close>, the build returns, every declared name
  has its entry in \<open>self._vars\<close>, there is one declaration of partials per entry, and for
  an entry of shape \<open>dims\<close>, with \<open>size = prod dims\<close>, the one block declared for its
  output with respect to its input has the values \<open>size\<close> times 1, the rows
  \<open>0..size-1\<close> and the columns \<open>0..size-1\<close>: \<open>size\<close> entries, one at each
  \<open>(i, i)\<close>.
\<close>

theorem partials_are_sparse_identity:
  assumes "\<forall>(n, a) \<in> set ds. \<exists>dims. arg_shape a = PyTuple dims
             \<and> (\<forall>d\<in>set dims. - (2 ^ 63) \<le> d \<and> d < 2 ^ 63)
             \<and> 0 \<le> prod_list dims \<and> prod_list dims < 2 ^ 63"
  shows "\<exists>s. setup' np_rest (declare_all INF_BOUND ds (initialize l)) = Returned s
     \<and> fst ` set (vars s) = fst ` set ds
     \<and> length (declared_partials (calls s)) = length (vars s)
     \<and> (\<forall>(n, v) \<in> set (vars s). \<exists>dims. shape v = PyTuple dims
          \<and> filter (\<lambda>p. fst p = output_name v \<and> fst (snd p) = input_name v)
               (declared_partials (calls s))
             = [(output_name v, input_name v, replicate (nat (prod_list dims)) 1,
                 [0..<nat (prod_list dims)], [0..<nat (prod_list dims)])])"
proof -
  let ?vs = "declared_vars l ds"
  let ?s = "\<lparr>loc = l, constraints = map (stored INF_BOUND) ds, vars = ?vs,
        calls = concat (map (decl_calls INF_BOUND l) ds) @ fst (partial_calls np_rest ?vs)\<rparr>"
  have tuple: "\<exists>dims. shape v = PyTuple dims
      \<and> int_np_prod np_rest (PyTuple dims) = Inr (prod_list dims)"
    if "(n, v) \<in> set ?vs" for n v
  proof -
    from declared_vars_shape [OF that] obtain a where
      a: "(n, a) \<in> set ds" "shape v = arg_shape a" by blast
    with assms obtain dims where dims: "arg_shape a = PyTuple dims"
      "\<forall>d\<in>set dims. - (2 ^ 63) \<le> d \<and> d < 2 ^ 63" "0 \<le> prod_list dims"
      "prod_list dims < 2 ^ 63"
      by fastforce
    from int_np_prod_tuple [OF dims(2-4)] a(2) dims(1) show ?thesis by simp
  qed
  have ok: "list_all (\<lambda>x. size_ok np_rest (snd x)) ?vs"
    by (rule declared_vars_size_ok [OF assms])
  have none: "snd (partial_calls np_rest ?vs) = None"
    using ok by (simp add: partial_calls_ok)
  have ret: "setup' np_rest (declare_all INF_BOUND ds (initialize l)) = Returned ?s"
    by (simp add: setup_declared none finish_def)
  have parts: "declared_partials (calls ?s) = map (identity_block np_rest) ?vs"
    by (simp add: declared_partials_append declared_partials_decl_calls partial_calls_blocks [OF ok])
  have block: "\<exists>dims. shape v = PyTuple dims
          \<and> filter (\<lambda>p. fst p = output_name v \<and> fst (snd p) = input_name v)
               (declared_partials (calls ?s))
             = [(output_name v, input_name v, replicate (nat (prod_list dims)) 1,
                 [0..<nat (prod_list dims)], [0..<nat (prod_list dims)])]"
    if mem: "(n, v) \<in> set ?vs" for n v
  proof -
    from tuple [OF mem] obtain dims where dims: "shape v = PyTuple dims"
      "int_np_prod np_rest (PyTuple dims) = Inr (prod_list dims)" by blast
    have "filter (\<lambda>p. fst p = output_name v \<and> fst (snd p) = input_name v)
               (declared_partials (calls ?s))
          = map (identity_block np_rest) (filter (\<lambda>y. output_name (snd y) = output_name v
               \<and> input_name (snd y) = input_name v) ?vs)"
      unfolding parts by (simp add: filter_map comp_def identity_block_def)
    also have "\<dots> = [identity_block np_rest (n, v)]"
      by (simp add: declared_vars_filter [OF mem])
    finally show ?thesis
      using dims by (simp add: identity_block_def var_size_def del: int_np_prod.simps)
  qed
  show ?thesis
    using ret parts block by (auto simp add: declared_vars_keys)
qed

theorem partials_are_sparse_identity_witness:
  "\<exists>s. setup' (\<lambda>v. Inl TypeError) (declare_all 10000000000
            [(''h'', defaults\<lparr>arg_equals := PyInt 20000, arg_units := PyStr ''m''\<rparr>),
             (''x'', defaults\<lparr>arg_shape := PyTuple [2, 2]\<rparr>)] (initialize final)) = Returned s
     \<and> declared_partials (calls s) =
         [(''final_value:h'', ''final_value_in:h'', [1], [0], [0]),
          (''final_value:x'', ''final_value_in:x'', [1, 1, 1, 1], [0, 1, 2, 3], [0, 1, 2, 3])]"
proof -
  let ?ds = "[(''h'', defaults\<lparr>arg_equals := PyInt 20000, arg_units := PyStr ''m''\<rparr>),
             (''x'', defaults\<lparr>arg_shape := PyTuple [2, 2]\<rparr>)]"
  have h: "\<forall>(n, a) \<in> set ?ds. \<exists>dims. arg_shape a = PyTuple dims
             \<and> (\<forall>d\<in>set dims. - (2 ^ 63) \<le> d \<and> d < 2 ^ 63)
             \<and> 0 \<le> prod_list dims \<and> prod_list dims < 2 ^ 63"
    by (simp add: defaults_def)
  from partials_are_sparse_identity [OF h, of "\<lambda>v. Inl TypeError" 10000000000 final]
  obtain s where s: "setup' (\<lambda>v. Inl TypeError) (declare_all 10000000000 ?ds (initialize final))
      = Returned s"
    by blast
  then have "declared_partials (calls s) =
         [(''final_value:h'', ''final_value_in:h'', [1], [0], [0]),
          (''final_value:x'', ''final_value_in:x'', [1, 1, 1, 1], [0, 1, 2, 3], [0, 1, 2, 3])]"
    by (auto simp add: ev in_int64_def wrap_int64_def eval_nat_numeral upt_rec)
  with s show ?thesis by blast
qed

section \<open>Evaluation\<close>

text \<open>
  C6. After the build, one call of \<open>compute\<close> on input and output vectors, where the
  inputs hold an array for every declared name, returns, and the outputs then hold under
  \<open>"{loc}_value:{name}"\<close>, for every declared name, the very array the inputs hold under
  \<open>"{loc}_value_in:{name}"\<close>; every other output is left as it was. The type of the
  arrays is arbitrary: nothing is converted, clipped or rounded.
\<close>

theorem compute_copies_inputs:
  assumes "\<forall>(n, a) \<in> set ds. inputs (loc_str l @ ''_value_in:'' @ n) \<noteq> None"
  shows "\<exists>outs.
     compute (state_of (setup' np_rest (declare_all INF_BOUND ds (initialize l)))) inputs outputs
       = Returned outs
     \<and> (\<forall>(n, a) \<in> set ds.
           outs (loc_str l @ ''_value:'' @ n) = inputs (loc_str l @ ''_value_in:'' @ n))
     \<and> (\<forall>k. k \<notin> (\<lambda>(n, a). loc_str l @ ''_value:'' @ n) ` set ds \<longrightarrow> outs k = outputs k)"
proof -
  let ?vs = "declared_vars l ds"
  have present: "\<forall>x\<in>set ?vs. inputs (input_name (snd x)) \<noteq> None"
  proof
    fix x assume x: "x \<in> set ?vs"
    then obtain d where d: "d \<in> set ds" "x = (fst d, decl_var l d)"
      by (auto dest: declared_vars_mem)
    with assms show "inputs (input_name (snd x)) \<noteq> None"
      by (force simp add: decl_var_def fmt_input_name_def split_beta)
  qed
  from compute_loop_copies [OF declared_vars_output_names_distinct present, of outputs]
  obtain outs where
    run: "compute_loop ?vs inputs outputs = Returned outs"
    and copied: "\<forall>x\<in>set ?vs. outs (output_name (snd x)) = inputs (input_name (snd x))"
    and frame: "\<forall>k. k \<notin> (\<lambda>x. output_name (snd x)) ` set ?vs \<longrightarrow> outs k = outputs k"
    by blast
  have a: "outs (loc_str l @ ''_value:'' @ n) = inputs (loc_str l @ ''_value_in:'' @ n)"
    if "(n, a) \<in> set ds" for n a
  proof -
    from declared_vars_has [OF that] obtain v where v: "(n, v) \<in> set ?vs" by blast
    from copied v have "outs (output_name v) = inputs (input_name v)" by force
    then show ?thesis
      using declared_vars_names [OF v] by (simp add: fmt_input_name_def fmt_output_name_def)
  qed
  have b: "outs k = outputs k" if "k \<notin> (\<lambda>(n, a). loc_str l @ ''_value:'' @ n) ` set ds" for k
  proof -
    have "k \<notin> (\<lambda>x. output_name (snd x)) ` set ?vs"
    proof
      assume "k \<in> (\<lambda>x. output_name (snd x)) ` set ?vs"
      then obtain x where x: "x \<in> set ?vs" "k = output_name (snd x)" by blast
      then obtain d where d: "d \<in> set ds" "x = (fst d, decl_var l d)"
        by (auto dest: declared_vars_mem)
      then have "k = (\<lambda>(n, a). loc_str l @ ''_value:'' @ n) d"
        using x by (simp add: decl_var_def fmt_output_name_def split_beta)
      with d(1) that show False by blast
    qed
    with frame show ?thesis by blast
  qed
  show ?thesis
    unfolding compute_def vars_built using run a b by blast
qed

theorem compute_copies_inputs_witness:
  "\<exists>outs. compute (state_of (setup' (\<lambda>v. Inl TypeError) (declare_all 10000000000
        [(''h'', defaults\<lparr>arg_equals := PyInt 20000, arg_units := PyStr ''m''\<rparr>)] (initialize final))))
        [''final_value_in:h'' \<mapsto> ([1::int], [19500::real])] Map.empty = Returned outs
     \<and> outs ''final_value:h'' = Some ([1], [19500])
     \<and> outs ''final_value_in:h'' = None"
proof -
  let ?ds = "[(''h'', defaults\<lparr>arg_equals := PyInt 20000, arg_units := PyStr ''m''\<rparr>)]"
  let ?inputs = "[''final_value_in:h'' \<mapsto> ([1::int], [19500::real])]"
  have h: "\<forall>(n, a) \<in> set ?ds. ?inputs (loc_str final @ ''_value_in:'' @ n) \<noteq> None"
    by simp
  from compute_copies_inputs [OF h, of "\<lambda>v. Inl TypeError" 10000000000 Map.empty]
  obtain outs where
    run: "compute (state_of (setup' (\<lambda>v. Inl TypeError) (declare_all 10000000000 ?ds (initialize final))))
            ?inputs Map.empty = Returned outs"
    and copied: "\<forall>(n, a) \<in> set ?ds.
            outs (loc_str final @ ''_value:'' @ n) = ?inputs (loc_str final @ ''_value_in:'' @ n)"
    and frame: "\<forall>k. k \<notin> (\<lambda>(n, a). loc_str final @ ''_value:'' @ n) ` set ?ds
            \<longrightarrow> outs k = Map.empty k"
    by blast
  from copied have "outs ''final_value:h'' = Some ([1], [19500])" by simp
  moreover from frame have "outs ''final_value_in:h'' = None" by simp
  ultimately show ?thesis using run by blast
qed

section \<open>Build: shapes\<close>




section \<open>Build: the constraint metadata\<close>

text \<open>
  C8, as amended. For every declaration, also one that gives \<open>equals\<close> together with
  \<open>lower\<close> or \<open>upper\<close>, the build forwards \<open>equals\<close> as given, and forwards
  \<open>lower\<close> and \<open>upper\<close> as the declaration stored them: as given when both or
  neither are given, and with the sentinel in place of the missing one when exactly one
  is given. The three arguments cause no error: the build raises what it raises on the
  same declarations without them.
\<close>

theorem forwarded_bounds_are_normalized:
  "map (\<lambda>(n, kw). (getitem kw ''lower'', getitem kw ''upper'', getitem kw ''equals''))
     (registered_constraints (calls (state_of (setup' np_rest (declare_all INF_BOUND ds (initialize l))))))
   = map (\<lambda>(n, a).
       (Inr (if arg_lower a = PyNone \<and> arg_upper a \<noteq> PyNone
             then PyFloat (- INF_BOUND) else arg_lower a),
        Inr (if arg_upper a = PyNone \<and> arg_lower a \<noteq> PyNone
             then PyFloat INF_BOUND else arg_upper a),
        Inr (arg_equals a))) ds
   \<and> raised (setup' np_rest (declare_all INF_BOUND ds (initialize l))) =
     raised (setup' np_rest (declare_all INF_BOUND
        (map (\<lambda>(n, a). (n, a\<lparr>arg_lower := PyNone, arg_upper := PyNone, arg_equals := PyNone\<rparr>)) ds)
        (initialize l)))"
proof -
  have "declared_vars l
      (map (\<lambda>(n, a). (n, a\<lparr>arg_lower := PyNone, arg_upper := PyNone, arg_equals := PyNone\<rparr>)) ds)
      = declared_vars l ds"
    by (simp add: declared_vars_def fold_map comp_def split_beta decl_var_def)
  then show ?thesis
    by (auto simp add: built_constraints raised_built forwarded_kwargs_def getitem_def
        normalized_lower_def normalized_upper_def)
qed

theorem forwarded_bounds_are_normalized_witness:
  "map (\<lambda>(n, kw). (getitem kw ''lower'', getitem kw ''upper'', getitem kw ''equals''))
     (registered_constraints (calls (state_of (setup' (\<lambda>v. Inl TypeError) (declare_all 10000000000
        [(''h'', defaults\<lparr>arg_equals := PyFloat 1, arg_lower := PyFloat 0\<rparr>),
         (''gam'', defaults\<lparr>arg_equals := PyFloat 0, arg_lower := PyFloat (- 1.5),
                             arg_upper := PyFloat 1.5\<rparr>)] (initialize final))))))
   = [(Inr (PyFloat 0), Inr (PyFloat 10000000000), Inr (PyFloat 1)),
      (Inr (PyFloat (- 1.5)), Inr (PyFloat 1.5), Inr (PyFloat 0))]"
  using forwarded_bounds_are_normalized [of "\<lambda>v. Inl TypeError" 10000000000
        "[(''h'', defaults\<lparr>arg_equals := PyFloat 1, arg_lower := PyFloat 0\<rparr>),
         (''gam'', defaults\<lparr>arg_equals := PyFloat 0, arg_lower := PyFloat (- 1.5),
                             arg_upper := PyFloat 1.5\<rparr>)]" final]
  by (simp add: defaults_def)

text \<open>
  C8 as stated fails: with \<open>equals=1.0\<close> and \<open>lower=0.0\<close> and no \<open>upper\<close>, the
  build forwards \<open>upper=INF_BOUND\<close>, not the \<open>None\<close> the caller gave.
\<close>

theorem equals_with_one_bound_counterexample:
  "map (\<lambda>(n, kw). (getitem kw ''lower'', getitem kw ''upper'', getitem kw ''equals''))
     (registered_constraints (calls (state_of (setup' (\<lambda>v. Inl TypeError) (declare_all 10000000000
        [(''h'', defaults\<lparr>arg_equals := PyFloat 1, arg_lower := PyFloat 0\<rparr>)] (initialize final))))))
   = [(Inr (PyFloat 0), Inr (PyFloat 10000000000), Inr (PyFloat 1))]
   \<and> (arg_lower (defaults\<lparr>arg_equals := PyFloat 1, arg_lower := PyFloat 0\<rparr>),
      arg_upper (defaults\<lparr>arg_equals := PyFloat 1, arg_lower := PyFloat 0\<rparr>),
      arg_equals (defaults\<lparr>arg_equals := PyFloat 1, arg_lower := PyFloat 0\<rparr>))
     = (PyFloat 0, PyNone, PyFloat 1)"
  by (simp add: ev state_of_finish getitem_def split: option.split)

text \<open>
  C9. No stored declaration has the key \<open>indices\<close>, and the build passes
  \<open>indices=None\<close> to \<open>add_constraint\<close> for every declared constraint.
\<close>

theorem forwarded_indices_are_None:
  "map (\<lambda>(n, kw). getitem kw ''indices'') (constraints (declare_all INF_BOUND ds (initialize l)))
   = replicate (length ds) (Inl (KeyError ''indices''))
   \<and> map (\<lambda>(n, kw). getitem kw ''indices'')
     (registered_constraints (calls (state_of (setup' np_rest (declare_all INF_BOUND ds (initialize l))))))
   = replicate (length ds) (Inr PyNone)"
proof
  show "map (\<lambda>(n, kw). getitem kw ''indices'')
      (constraints (declare_all INF_BOUND ds (initialize l)))
    = replicate (length ds) (Inl (KeyError ''indices''))"
    by (simp add: constraints_declare_all initialize_def stored_def getitem_unforwarded
        comp_def map_replicate_const)
  show "map (\<lambda>(n, kw). getitem kw ''indices'')
      (registered_constraints (calls (state_of (setup' np_rest (declare_all INF_BOUND ds (initialize l))))))
    = replicate (length ds) (Inr PyNone)"
    by (simp add: built_constraints forwarded_kwargs_def getitem_def comp_def
        map_replicate_const)
qed

theorem forwarded_indices_are_None_witness:
  "map (\<lambda>(n, kw). getitem kw ''indices'')
     (constraints (declare_all 10000000000 min_time_climb_final (initialize final)))
   = [Inl (KeyError ''indices''), Inl (KeyError ''indices''), Inl (KeyError ''indices'')]
   \<and> map (\<lambda>(n, kw). getitem kw ''indices'')
     (registered_constraints (calls (state_of (setup' (\<lambda>v. Inl TypeError)
        (declare_all 10000000000 min_time_climb_final (initialize final))))))
   = [Inr PyNone, Inr PyNone, Inr PyNone]"
  using forwarded_indices_are_None [of 10000000000 min_time_climb_final final "\<lambda>v. Inl TypeError"]
  by (simp add: min_time_climb_final_def)

text \<open>
  C10. Two lists of declarations that differ only in \<open>res_units\<close>, \<open>res_ref\<close> and
  \<open>distributed\<close> build alike: the same error or none, the same \<open>self._vars\<close>, the
  same framework calls with the same arguments. The three parameters are stored with the
  declaration and read by nothing in the build.
\<close>

theorem unforwarded_parameters:
  assumes "map (\<lambda>(n, a). (n, a\<lparr>arg_res_units := PyNone, arg_res_ref := PyNone,
                                arg_distributed := PyNone\<rparr>)) ds
         = map (\<lambda>(n, a). (n, a\<lparr>arg_res_units := PyNone, arg_res_ref := PyNone,
                                arg_distributed := PyNone\<rparr>)) ds'"
  shows "raised (setup' np_rest (declare_all INF_BOUND ds (initialize l)))
           = raised (setup' np_rest (declare_all INF_BOUND ds' (initialize l)))
     \<and> vars (state_of (setup' np_rest (declare_all INF_BOUND ds (initialize l))))
           = vars (state_of (setup' np_rest (declare_all INF_BOUND ds' (initialize l))))
     \<and> calls (state_of (setup' np_rest (declare_all INF_BOUND ds (initialize l))))
           = calls (state_of (setup' np_rest (declare_all INF_BOUND ds' (initialize l))))
     \<and> map (\<lambda>(n, kw). (getitem kw ''res_units'', getitem kw ''res_ref'',
                         getitem kw ''distributed''))
          (constraints (declare_all INF_BOUND ds (initialize l)))
         = map (\<lambda>(n, a). (Inr (arg_res_units a), Inr (arg_res_ref a), Inr (arg_distributed a))) ds"
proof -
  let ?e = "\<lambda>a. a\<lparr>arg_res_units := PyNone, arg_res_ref := PyNone, arg_distributed := PyNone\<rparr>"
  have eq: "map (\<lambda>d. (fst d, ?e (snd d))) ds = map (\<lambda>d. (fst d, ?e (snd d))) ds'"
    using assms by (simp add: case_prod_unfold)
  have c: "decl_calls INF_BOUND l (fst d, ?e (snd d)) = decl_calls INF_BOUND l d" for d
    by (simp add: decl_calls_def io_kwargs_def forwarded_kwargs_def normalized_lower_def
        normalized_upper_def)
  have v: "decl_var l (fst d, ?e (snd d)) = decl_var l d" for d
    by (simp add: decl_var_def)
  note same = build_depends_on [of ?e ds ds' INF_BOUND l, OF eq c v]
  have stored_part: "map (\<lambda>(n, kw). (getitem kw ''res_units'', getitem kw ''res_ref'',
                         getitem kw ''distributed''))
          (constraints (declare_all INF_BOUND ds (initialize l)))
         = map (\<lambda>(n, a). (Inr (arg_res_units a), Inr (arg_res_ref a), Inr (arg_distributed a))) ds"
    by (simp add: constraints_declare_all initialize_def stored_def getitem_unforwarded
        split_beta)
  show ?thesis
    using stored_part by (simp add: raised_built vars_built calls_built same)
qed

theorem unforwarded_parameters_witness:
  "raised (setup' (\<lambda>v. Inl TypeError) (declare_all 10000000000 [(''h'', defaults)] (initialize final)))
     = raised (setup' (\<lambda>v. Inl TypeError) (declare_all 10000000000
         [(''h'', defaults\<lparr>arg_res_units := PyStr ''m'', arg_res_ref := PyFloat 2,
                            arg_distributed := PyBool True\<rparr>)] (initialize final)))
   \<and> vars (state_of (setup' (\<lambda>v. Inl TypeError) (declare_all 10000000000 [(''h'', defaults)] (initialize final))))
     = vars (state_of (setup' (\<lambda>v. Inl TypeError) (declare_all 10000000000
         [(''h'', defaults\<lparr>arg_res_units := PyStr ''m'', arg_res_ref := PyFloat 2,
                            arg_distributed := PyBool True\<rparr>)] (initialize final))))
   \<and> calls (state_of (setup' (\<lambda>v. Inl TypeError) (declare_all 10000000000 [(''h'', defaults)] (initialize final))))
     = calls (state_of (setup' (\<lambda>v. Inl TypeError) (declare_all 10000000000
         [(''h'', defaults\<lparr>arg_res_units := PyStr ''m'', arg_res_ref := PyFloat 2,
                            arg_distributed := PyBool True\<rparr>)] (initialize final))))
   \<and> map (\<lambda>(n, kw). (getitem kw ''res_units'', getitem kw ''res_ref'', getitem kw ''distributed''))
        (constraints (declare_all 10000000000
         [(''h'', defaults\<lparr>arg_res_units := PyStr ''m'', arg_res_ref := PyFloat 2,
                            arg_distributed := PyBool True\<rparr>)] (initialize final)))
     = [(Inr (PyStr ''m''), Inr (PyFloat 2), Inr (PyBool True))]"
proof -
  have h: "map (\<lambda>(n, a). (n, a\<lparr>arg_res_units := PyNone, arg_res_ref := PyNone,
                                arg_distributed := PyNone\<rparr>)) [(''h'', defaults)]
         = map (\<lambda>(n, a). (n, a\<lparr>arg_res_units := PyNone, arg_res_ref := PyNone,
                                arg_distributed := PyNone\<rparr>))
            [(''h'', defaults\<lparr>arg_res_units := PyStr ''m'', arg_res_ref := PyFloat 2,
                            arg_distributed := PyBool True\<rparr>)]"
    by simp
  have h': "map (\<lambda>(n, a). (n, a\<lparr>arg_res_units := PyNone, arg_res_ref := PyNone,
                                arg_distributed := PyNone\<rparr>))
            [(''h'', defaults\<lparr>arg_res_units := PyStr ''m'', arg_res_ref := PyFloat 2,
                            arg_distributed := PyBool True\<rparr>)]
         = map (\<lambda>(n, a). (n, a\<lparr>arg_res_units := PyNone, arg_res_ref := PyNone,
                                arg_distributed := PyNone\<rparr>)) [(''h'', defaults)]"
    by simp
  from unforwarded_parameters [OF h, of "\<lambda>v. Inl TypeError" 10000000000 final]
    unforwarded_parameters [OF h', of "\<lambda>v. Inl TypeError" 10000000000 final]
  show ?thesis by simp
qed

end
